theory Spec2Isabelle
  imports Main
begin

section \<open>The settings dialog: data model\<close>

text \<open>
  The development follows \<^verbatim>\<open>SettingsPage.tsx\<close>. The types \<^verbatim>\<open>UserSettings\<close> and
  \<^verbatim>\<open>SettingsUpdate\<close> are imported by the component from a module that declares them; the
  component never looks inside the five slices \<^verbatim>\<open>credentials\<close>, \<^verbatim>\<open>generation\<close>,
  \<^verbatim>\<open>export_profiles\<close>, \<^verbatim>\<open>ui\<close> and \<^verbatim>\<open>cache\<close>, so their types are the type
  parameters \<open>'c\<close>, \<open>'g\<close>, \<open>'e\<close>, \<open>'u\<close> and \<open>'k\<close>. The shape of the AI slice is the one of
  the object literal the component writes down for it.
\<close>

datatype TabId = Sources | Generation | Export | UI | Cache | AI

text \<open>
  What reading an optional property yields. A property that is absent reads as
  \<^verbatim>\<open>undefined\<close>, and the component only ever reads properties, so \<open>Undefined\<close> stands for
  both the absent property and the property holding \<^verbatim>\<open>undefined\<close>. \<open>Null\<close> is the JSON
  \<^verbatim>\<open>null\<close> a service response may carry.
\<close>

datatype 'a jsval = Undefined | Null | Obj 'a

fun truthy :: "'a jsval \<Rightarrow> bool" where
  "truthy Undefined = False"
| "truthy Null = False"
| "truthy (Obj x) = True"

definition js_or :: "'a jsval \<Rightarrow> 'a jsval \<Rightarrow> 'a jsval" where
  \<comment> \<open>\<^verbatim>\<open>a || b\<close>\<close>
  "js_or a b = (if truthy a then a else b)"

record AISettings =
  enabled :: bool
  ollama_url :: string
  vision_model :: string
  coder_model :: string
  auto_analyze :: bool
  timeout_seconds :: int

text \<open>
  One record carries the six top-level fields. \<^verbatim>\<open>UserSettings\<close> has the five slices
  and an optional \<^verbatim>\<open>ai\<close>; \<^verbatim>\<open>SettingsUpdate\<close> is the same shape with every field
  optional.
\<close>

record ('c, 'g, 'e, 'u, 'k, 'a) settings_fields =
  credentials :: 'c
  generation :: 'g
  export_profiles :: 'e
  ui :: 'u
  cache :: 'k
  ai :: 'a

type_synonym ('c, 'g, 'e, 'u, 'k) UserSettings =
  "('c, 'g, 'e, 'u, 'k, AISettings jsval) settings_fields"

type_synonym ('c, 'g, 'e, 'u, 'k) SettingsUpdate =
  "('c jsval, 'g jsval, 'e jsval, 'u jsval, 'k jsval, AISettings jsval) settings_fields"

definition no_fields :: "('c, 'g, 'e, 'u, 'k) SettingsUpdate" where
  \<comment> \<open>the object literal \<^verbatim>\<open>{}\<close>\<close>
  "no_fields = \<lparr>credentials = Undefined, generation = Undefined, export_profiles = Undefined,
     ui = Undefined, cache = Undefined, ai = Undefined\<rparr>"

definition top_level_fields :: "('c, 'g, 'e, 'u, 'k) SettingsUpdate \<Rightarrow> TabId list" where
  \<comment> \<open>the fields an update carries, each named by the tab of its domain\<close>
  "top_level_fields upd =
     (if credentials upd \<noteq> Undefined then [Sources] else []) @
     (if generation upd \<noteq> Undefined then [Generation] else []) @
     (if export_profiles upd \<noteq> Undefined then [Export] else []) @
     (if ui upd \<noteq> Undefined then [UI] else []) @
     (if cache upd \<noteq> Undefined then [Cache] else []) @
     (if ai upd \<noteq> Undefined then [AI] else [])"

datatype api_error = ApiError string

datatype timer_callback = WindowLocationReload

datatype ('c, 'g, 'e, 'u, 'k) effect =
    GetSettingsRequest
  | UpdateSettingsRequest "('c, 'g, 'e, 'u, 'k) SettingsUpdate"
  | ConsoleError string api_error
  | Alert string
  | SetTimeout timer_callback nat
  | OnCloseCalled
  | Uncaught api_error

text \<open>The four \<^verbatim>\<open>useState\<close> cells of the component.\<close>

record ('c, 'g, 'e, 'u, 'k) page =
  activeTab :: TabId
  settings :: "('c, 'g, 'e, 'u, 'k) UserSettings option"
  loading :: bool
  saving :: bool

definition initial_page :: "('c, 'g, 'e, 'u, 'k) page" where
  "initial_page = \<lparr>activeTab = Sources, settings = None, loading = True, saving = False\<rparr>"

text \<open>
  A running handler sees the component state and the effects emitted so far, in order.
\<close>

record ('c, 'g, 'e, 'u, 'k) world =
  comp :: "('c, 'g, 'e, 'u, 'k) page"
  emitted :: "('c, 'g, 'e, 'u, 'k) effect list"

text \<open>The settings service: what each of its two promises settles to.\<close>

record ('c, 'g, 'e, 'u, 'k) settingsApi =
  getSettings :: "api_error + ('c, 'g, 'e, 'u, 'k) UserSettings"
  updateSettings ::
    "('c, 'g, 'e, 'u, 'k) SettingsUpdate \<Rightarrow> api_error + ('c, 'g, 'e, 'u, 'k) UserSettings"

section \<open>Statements that may throw\<close>

type_synonym ('w, 'a) prog = "'w \<Rightarrow> (api_error + 'a) \<times> 'w"

definition ret :: "'a \<Rightarrow> ('w, 'a) prog" where
  "ret x = (\<lambda>w. (Inr x, w))"

definition throw :: "api_error \<Rightarrow> ('w, 'a) prog" where
  "throw e = (\<lambda>w. (Inl e, w))"

definition bind :: "('w, 'a) prog \<Rightarrow> ('a \<Rightarrow> ('w, 'b) prog) \<Rightarrow> ('w, 'b) prog" where
  "bind m f = (\<lambda>w. case m w of (Inl e, w') \<Rightarrow> (Inl e, w') | (Inr x, w') \<Rightarrow> f x w')"

definition seq :: "('w, 'a) prog \<Rightarrow> ('w, 'b) prog \<Rightarrow> ('w, 'b) prog" where
  "seq m n = bind m (\<lambda>_. n)"

definition when_js :: "bool \<Rightarrow> ('w, unit) prog \<Rightarrow> ('w, unit) prog" where
  \<comment> \<open>\<^verbatim>\<open>if (b) { m }\<close>\<close>
  "when_js b m = (if b then m else ret ())"

definition try_catch_finally ::
  "('w, 'a) prog \<Rightarrow> (api_error \<Rightarrow> ('w, 'a) prog) \<Rightarrow> ('w, unit) prog \<Rightarrow> ('w, 'a) prog" where
  \<comment> \<open>the handler runs on a throw of the body; the last block runs in every case, and a throw
      of the handler leaves after it\<close>
  "try_catch_finally body handler fin = (\<lambda>w.
     case body w of
       (Inr x, w1) \<Rightarrow>
         (case fin w1 of (Inl e, w2) \<Rightarrow> (Inl e, w2) | (Inr _, w2) \<Rightarrow> (Inr x, w2))
     | (Inl e, w1) \<Rightarrow>
         (case handler e w1 of (r, w2) \<Rightarrow>
            (case fin w2 of (Inl e', w3) \<Rightarrow> (Inl e', w3) | (Inr _, w3) \<Rightarrow> (r, w3))))"

definition await :: "api_error + 'a \<Rightarrow> ('w, 'a) prog" where
  \<comment> \<open>a rejected promise throws at the \<^verbatim>\<open>await\<close>\<close>
  "await r = (case r of Inl e \<Rightarrow> throw e | Inr v \<Rightarrow> ret v)"

definition emit ::
  "('c, 'g, 'e, 'u, 'k) effect \<Rightarrow> (('c, 'g, 'e, 'u, 'k) world, unit) prog" where
  "emit x = (\<lambda>w. (Inr (), w\<lparr>emitted := emitted w @ [x]\<rparr>))"

definition setActiveTab :: "TabId \<Rightarrow> (('c, 'g, 'e, 'u, 'k) world, unit) prog" where
  "setActiveTab t = (\<lambda>w. (Inr (), w\<lparr>comp := (comp w)\<lparr>activeTab := t\<rparr>\<rparr>))"

definition setSettings ::
  "('c, 'g, 'e, 'u, 'k) UserSettings \<Rightarrow> (('c, 'g, 'e, 'u, 'k) world, unit) prog" where
  "setSettings s = (\<lambda>w. (Inr (), w\<lparr>comp := (comp w)\<lparr>settings := Some s\<rparr>\<rparr>))"

definition setLoading :: "bool \<Rightarrow> (('c, 'g, 'e, 'u, 'k) world, unit) prog" where
  "setLoading b = (\<lambda>w. (Inr (), w\<lparr>comp := (comp w)\<lparr>loading := b\<rparr>\<rparr>))"

definition setSaving :: "bool \<Rightarrow> (('c, 'g, 'e, 'u, 'k) world, unit) prog" where
  "setSaving b = (\<lambda>w. (Inr (), w\<lparr>comp := (comp w)\<lparr>saving := b\<rparr>\<rparr>))"

definition console_error ::
  "string \<Rightarrow> api_error \<Rightarrow> (('c, 'g, 'e, 'u, 'k) world, unit) prog" where
  "console_error msg e = emit (ConsoleError msg e)"

definition alert :: "string \<Rightarrow> (('c, 'g, 'e, 'u, 'k) world, unit) prog" where
  "alert msg = emit (Alert msg)"

definition setTimeout ::
  "timer_callback \<Rightarrow> nat \<Rightarrow> (('c, 'g, 'e, 'u, 'k) world, unit) prog" where
  "setTimeout cb ms = emit (SetTimeout cb ms)"

section \<open>Loading and saving\<close>

definition loadSettings ::
  "('c, 'g, 'e, 'u, 'k) settingsApi \<Rightarrow> (('c, 'g, 'e, 'u, 'k) world, unit) prog" where
  "loadSettings api =
     try_catch_finally
       (bind (seq (emit GetSettingsRequest) (await (getSettings api)))
          (\<lambda>data. setSettings data))
       (\<lambda>error. console_error ''Failed to load settings:'' error)
       (setLoading False)"

definition handleSave ::
  "('c, 'g, 'e, 'u, 'k) settingsApi \<Rightarrow> ('c, 'g, 'e, 'u, 'k) SettingsUpdate \<Rightarrow>
   (('c, 'g, 'e, 'u, 'k) world, unit) prog" where
  "handleSave api updates =
     seq (setSaving True)
       (try_catch_finally
          (bind (seq (emit (UpdateSettingsRequest updates)) (await (updateSettings api updates)))
             (\<lambda>updated.
                seq (setSettings updated)
               (seq (alert ''Settings saved successfully!'')
                    (when_js (ai updates \<noteq> Undefined)
                       (setTimeout WindowLocationReload 1000)))))
          (\<lambda>error.
             seq (console_error ''Failed to save settings:'' error)
                 (alert ''Failed to save settings''))
          (setSaving False))"

text \<open>
  Both functions suspend at their \<^verbatim>\<open>await\<close>, and other handlers run before the promise
  settles. \<open>handleSave_call\<close> is what runs up to the suspension, \<open>handleSave_resume\<close>
  what runs once the promise has settled to \<open>r\<close>; likewise for \<open>loadSettings\<close>.
\<close>

definition loadSettings_call :: "(('c, 'g, 'e, 'u, 'k) world, unit) prog" where
  "loadSettings_call = emit GetSettingsRequest"

definition loadSettings_resume ::
  "api_error + ('c, 'g, 'e, 'u, 'k) UserSettings \<Rightarrow> (('c, 'g, 'e, 'u, 'k) world, unit) prog" where
  "loadSettings_resume r =
     try_catch_finally
       (bind (await r) (\<lambda>data. setSettings data))
       (\<lambda>error. console_error ''Failed to load settings:'' error)
       (setLoading False)"

definition handleSave_call ::
  "('c, 'g, 'e, 'u, 'k) SettingsUpdate \<Rightarrow> (('c, 'g, 'e, 'u, 'k) world, unit) prog" where
  "handleSave_call updates = seq (setSaving True) (emit (UpdateSettingsRequest updates))"

definition handleSave_resume ::
  "('c, 'g, 'e, 'u, 'k) SettingsUpdate \<Rightarrow> api_error + ('c, 'g, 'e, 'u, 'k) UserSettings \<Rightarrow>
   (('c, 'g, 'e, 'u, 'k) world, unit) prog" where
  "handleSave_resume updates r =
     try_catch_finally
       (bind (await r)
          (\<lambda>updated.
             seq (setSettings updated)
            (seq (alert ''Settings saved successfully!'')
                 (when_js (ai updates \<noteq> Undefined)
                    (setTimeout WindowLocationReload 1000)))))
       (\<lambda>error.
          seq (console_error ''Failed to save settings:'' error)
              (alert ''Failed to save settings''))
       (setSaving False)"

section \<open>Rendering\<close>

datatype type_error = TypeError

definition deref :: "'s option \<Rightarrow> ('s \<Rightarrow> 'a) \<Rightarrow> type_error + 'a" where
  \<comment> \<open>\<^verbatim>\<open>settings.f\<close>: reading a property of \<^verbatim>\<open>null\<close> throws\<close>
  "deref s f = (case s of None \<Rightarrow> Inl TypeError | Some v \<Rightarrow> Inr (f v))"

datatype icon = Database | Sliders | FileText | Brain | Palette | HardDrive

text \<open>What a callback of the rendered tree does when the host calls it.\<close>

datatype ('c, 'g, 'e, 'u, 'k) handler_call =
    SetActiveTabCall TabId
  | HandleSaveCall "('c, 'g, 'e, 'u, 'k) SettingsUpdate"
  | OnCloseCall

record ('c, 'g, 'e, 'u, 'k) tab_button =
  key :: TabId
  glyph :: icon
  label :: string
  highlighted :: bool
  onClick :: "('c, 'g, 'e, 'u, 'k) handler_call"

text \<open>
  The six editors, each with its three props: the slice, \<^verbatim>\<open>onSave\<close> and \<^verbatim>\<open>saving\<close>.
\<close>

datatype ('c, 'g, 'e, 'u, 'k) editor =
    DataSourcesTab 'c "'c \<Rightarrow> ('c, 'g, 'e, 'u, 'k) handler_call" bool
  | GenerationTab 'g "'g \<Rightarrow> ('c, 'g, 'e, 'u, 'k) handler_call" bool
  | ExportProfilesTab 'e "'e \<Rightarrow> ('c, 'g, 'e, 'u, 'k) handler_call" bool
  | UIPreferencesTab 'u "'u \<Rightarrow> ('c, 'g, 'e, 'u, 'k) handler_call" bool
  | AITab "AISettings jsval" "AISettings \<Rightarrow> ('c, 'g, 'e, 'u, 'k) handler_call" bool
  | CacheStorageTab 'k "'k \<Rightarrow> ('c, 'g, 'e, 'u, 'k) handler_call" bool

datatype ('c, 'g, 'e, 'u, 'k) view =
    Spinner
  | Dialog "('c, 'g, 'e, 'u, 'k) handler_call" "('c, 'g, 'e, 'u, 'k) tab_button list"
      "('c, 'g, 'e, 'u, 'k) editor option list"

definition tabs :: "(TabId \<times> string \<times> icon) list" where
  "tabs =
     [(Sources, ''Data Sources'', Database),
      (Generation, ''Generation'', Sliders),
      (Export, ''Export Profiles'', FileText),
      (AI, ''AI Assistant'', Brain),
      (UI, ''UI & Language'', Palette),
      (Cache, ''Storage'', HardDrive)]"

definition sidebar :: "TabId \<Rightarrow> ('c, 'g, 'e, 'u, 'k) tab_button list" where
  "sidebar active =
     map (\<lambda>(i, l, g). \<lparr>key = i, glyph = g, label = l, highlighted = (active = i),
            onClick = SetActiveTabCall i\<rparr>) tabs"

definition child :: "bool \<Rightarrow> type_error + 'a \<Rightarrow> type_error + 'a option" where
  \<comment> \<open>\<^verbatim>\<open>{cond && (<Element ... />)}\<close>: the element's props are evaluated only when the
      condition holds, and \<^verbatim>\<open>false\<close> renders nothing\<close>
  "child cond el = (if cond then (case el of Inl e \<Rightarrow> Inl e | Inr x \<Rightarrow> Inr (Some x)) else Inr None)"

fun collect :: "(type_error + 'a) list \<Rightarrow> type_error + 'a list" where
  "collect [] = Inr []"
| "collect (x # xs) =
     (case x of Inl e \<Rightarrow> Inl e
      | Inr v \<Rightarrow> (case collect xs of Inl e \<Rightarrow> Inl e | Inr vs \<Rightarrow> Inr (v # vs)))"

definition map_result :: "('a \<Rightarrow> 'b) \<Rightarrow> type_error + 'a \<Rightarrow> type_error + 'b" where
  "map_result f r = (case r of Inl e \<Rightarrow> Inl e | Inr x \<Rightarrow> Inr (f x))"

definition content_area ::
  "('c, 'g, 'e, 'u, 'k) page \<Rightarrow> (type_error + ('c, 'g, 'e, 'u, 'k) editor option) list" where
  "content_area p =
     [child (activeTab p = Sources)
        (map_result (\<lambda>c. DataSourcesTab c
           (\<lambda>credentials. HandleSaveCall (no_fields\<lparr>credentials := Obj credentials\<rparr>)) (saving p))
           (deref (settings p) credentials)),
      child (activeTab p = Generation)
        (map_result (\<lambda>g. GenerationTab g
           (\<lambda>generation. HandleSaveCall (no_fields\<lparr>generation := Obj generation\<rparr>)) (saving p))
           (deref (settings p) generation)),
      child (activeTab p = Export)
        (map_result (\<lambda>e. ExportProfilesTab e
           (\<lambda>export_profiles. HandleSaveCall (no_fields\<lparr>export_profiles := Obj export_profiles\<rparr>))
           (saving p))
           (deref (settings p) export_profiles)),
      child (activeTab p = UI)
        (map_result (\<lambda>u. UIPreferencesTab u
           (\<lambda>ui. HandleSaveCall (no_fields\<lparr>ui := Obj ui\<rparr>)) (saving p))
           (deref (settings p) ui)),
      child (activeTab p = AI)
        (map_result (\<lambda>a. AITab
           (js_or a (Obj \<lparr>enabled = False, ollama_url = ''http://localhost:11434'',
              vision_model = ''qwen3-vl:235b-cloud'', coder_model = ''qwen3-coder:480b-cloud'',
              auto_analyze = False, timeout_seconds = 120\<rparr>))
           (\<lambda>ai. HandleSaveCall (no_fields\<lparr>ai := Obj ai\<rparr>)) (saving p))
           (deref (settings p) ai)),
      child (activeTab p = Cache)
        (map_result (\<lambda>k. CacheStorageTab k
           (\<lambda>cache. HandleSaveCall (no_fields\<lparr>cache := Obj cache\<rparr>)) (saving p))
           (deref (settings p) cache))]"

definition render_dialog ::
  "('c, 'g, 'e, 'u, 'k) page \<Rightarrow> type_error + ('c, 'g, 'e, 'u, 'k) view" where
  \<comment> \<open>the second \<^verbatim>\<open>return\<close> of the component\<close>
  "render_dialog p =
     map_result (\<lambda>children. Dialog OnCloseCall (sidebar (activeTab p)) children)
       (collect (content_area p))"

definition render :: "('c, 'g, 'e, 'u, 'k) page \<Rightarrow> type_error + ('c, 'g, 'e, 'u, 'k) view" where
  "render p = (if loading p \<or> settings p = None then Inr Spinner else render_dialog p)"

fun buttons_of :: "type_error + ('c, 'g, 'e, 'u, 'k) view \<Rightarrow> ('c, 'g, 'e, 'u, 'k) tab_button list" where
  "buttons_of (Inr (Dialog c bs es)) = bs"
| "buttons_of _ = []"

fun editors_of :: "type_error + ('c, 'g, 'e, 'u, 'k) view \<Rightarrow> ('c, 'g, 'e, 'u, 'k) editor list" where
  \<comment> \<open>the editors on screen\<close>
  "editors_of (Inr (Dialog c bs es)) = List.map_filter id es"
| "editors_of _ = []"

section \<open>The component under events\<close>

text \<open>
  An editor is opaque: all it can do to the component is call its \<^verbatim>\<open>onSave\<close> prop with a
  value of its slice type.
\<close>

datatype ('c, 'g, 'e, 'u, 'k) payload =
    FromDataSources 'c
  | FromGeneration 'g
  | FromExportProfiles 'e
  | FromUIPreferences 'u
  | FromAI AISettings
  | FromCacheStorage 'k

fun onSave_of ::
  "('c, 'g, 'e, 'u, 'k) editor \<Rightarrow> ('c, 'g, 'e, 'u, 'k) payload \<Rightarrow>
   ('c, 'g, 'e, 'u, 'k) handler_call option" where
  "onSave_of (DataSourcesTab v f b) (FromDataSources x) = Some (f x)"
| "onSave_of (GenerationTab v f b) (FromGeneration x) = Some (f x)"
| "onSave_of (ExportProfilesTab v f b) (FromExportProfiles x) = Some (f x)"
| "onSave_of (UIPreferencesTab v f b) (FromUIPreferences x) = Some (f x)"
| "onSave_of (AITab v f b) (FromAI x) = Some (f x)"
| "onSave_of (CacheStorageTab v f b) (FromCacheStorage x) = Some (f x)"
| "onSave_of _ _ = None"

fun tab_of :: "('c, 'g, 'e, 'u, 'k) editor \<Rightarrow> TabId" where
  "tab_of (DataSourcesTab v f b) = Sources"
| "tab_of (GenerationTab v f b) = Generation"
| "tab_of (ExportProfilesTab v f b) = Export"
| "tab_of (UIPreferencesTab v f b) = UI"
| "tab_of (AITab v f b) = AI"
| "tab_of (CacheStorageTab v f b) = Cache"

fun payload_tab :: "('c, 'g, 'e, 'u, 'k) payload \<Rightarrow> TabId" where
  "payload_tab (FromDataSources x) = Sources"
| "payload_tab (FromGeneration x) = Generation"
| "payload_tab (FromExportProfiles x) = Export"
| "payload_tab (FromUIPreferences x) = UI"
| "payload_tab (FromAI x) = AI"
| "payload_tab (FromCacheStorage x) = Cache"

text \<open>A suspended \<^verbatim>\<open>async\<close> function: which one, and what its closure holds.\<close>

datatype ('c, 'g, 'e, 'u, 'k) continuation =
    LoadSettingsCont
  | HandleSaveCont "('c, 'g, 'e, 'u, 'k) SettingsUpdate"

datatype ('c, 'g, 'e, 'u, 'k) event =
    Mount
  | Settle nat "api_error + ('c, 'g, 'e, 'u, 'k) UserSettings"
  | ClickTab TabId
  | ClickClose
  | EditorSave "('c, 'g, 'e, 'u, 'k) payload"

record ('c, 'g, 'e, 'u, 'k) system =
  now :: "('c, 'g, 'e, 'u, 'k) world"
  pending :: "('c, 'g, 'e, 'u, 'k) continuation list"

definition initial_system :: "('c, 'g, 'e, 'u, 'k) system" where
  "initial_system = \<lparr>now = \<lparr>comp = initial_page, emitted = []\<rparr>, pending = []\<rparr>"

definition run_handler ::
  "(('c, 'g, 'e, 'u, 'k) world, unit) prog \<Rightarrow> ('c, 'g, 'e, 'u, 'k) world \<Rightarrow>
   ('c, 'g, 'e, 'u, 'k) world" where
  \<comment> \<open>the host runs a handler to its end; a throw that leaves it is reported\<close>
  "run_handler m w =
     (case m w of
        (Inl e, w') \<Rightarrow> w'\<lparr>emitted := emitted w' @ [Uncaught e]\<rparr>
      | (Inr _, w') \<Rightarrow> w')"

fun perform ::
  "('c, 'g, 'e, 'u, 'k) handler_call \<Rightarrow> ('c, 'g, 'e, 'u, 'k) system \<Rightarrow>
   ('c, 'g, 'e, 'u, 'k) system" where
  "perform (SetActiveTabCall t) s = s\<lparr>now := run_handler (setActiveTab t) (now s)\<rparr>"
| "perform (HandleSaveCall upd) s =
     s\<lparr>now := run_handler (handleSave_call upd) (now s),
       pending := pending s @ [HandleSaveCont upd]\<rparr>"
| "perform OnCloseCall s = s\<lparr>now := run_handler (emit OnCloseCalled) (now s)\<rparr>"

fun resume ::
  "('c, 'g, 'e, 'u, 'k) continuation \<Rightarrow> api_error + ('c, 'g, 'e, 'u, 'k) UserSettings \<Rightarrow>
   (('c, 'g, 'e, 'u, 'k) world, unit) prog" where
  "resume LoadSettingsCont r = loadSettings_resume r"
| "resume (HandleSaveCont upd) r = handleSave_resume upd r"

fun step ::
  "('c, 'g, 'e, 'u, 'k) event \<Rightarrow> ('c, 'g, 'e, 'u, 'k) system \<Rightarrow> ('c, 'g, 'e, 'u, 'k) system" where
  "step Mount s =
     s\<lparr>now := run_handler loadSettings_call (now s), pending := pending s @ [LoadSettingsCont]\<rparr>"
| "step (Settle i r) s =
     (if i < length (pending s)
      then s\<lparr>now := run_handler (resume (pending s ! i) r) (now s),
             pending := take i (pending s) @ drop (Suc i) (pending s)\<rparr>
      else s)"
| "step (ClickTab t) s =
     (case find (\<lambda>b. key b = t) (buttons_of (render (comp (now s)))) of
        None \<Rightarrow> s
      | Some b \<Rightarrow> perform (onClick b) s)"
| "step ClickClose s =
     (case render (comp (now s)) of
        Inr (Dialog c bs es) \<Rightarrow> perform c s
      | _ \<Rightarrow> s)"
| "step (EditorSave x) s =
     (case List.map_filter (\<lambda>e. onSave_of e x) (editors_of (render (comp (now s)))) of
        [] \<Rightarrow> s
      | h # hs \<Rightarrow> perform h s)"

definition run_events ::
  "('c, 'g, 'e, 'u, 'k) event list \<Rightarrow> ('c, 'g, 'e, 'u, 'k) system \<Rightarrow>
   ('c, 'g, 'e, 'u, 'k) system" where
  "run_events evs s = fold step evs s"

definition effects_of ::
  "(('c, 'g, 'e, 'u, 'k) world, 'a) prog \<Rightarrow> ('c, 'g, 'e, 'u, 'k) world \<Rightarrow>
   ('c, 'g, 'e, 'u, 'k) effect list" where
  \<comment> \<open>what a run from \<open>w\<close> adds to the effects\<close>
  "effects_of m w = drop (length (emitted w)) (emitted (snd (m w)))"

section \<open>What one run of each handler does\<close>

lemmas prog_defs = ret_def throw_def bind_def seq_def when_js_def try_catch_finally_def
  await_def emit_def setActiveTab_def setSettings_def setLoading_def setSaving_def
  console_error_def alert_def setTimeout_def

lemma handleSave_phases:
  "handleSave api upd = seq (handleSave_call upd) (handleSave_resume upd (updateSettings api upd))"
  by (rule ext) (simp add: handleSave_def handleSave_call_def handleSave_resume_def prog_defs
      split: sum.splits)

lemma loadSettings_phases:
  "loadSettings api = seq loadSettings_call (loadSettings_resume (getSettings api))"
  by (rule ext) (simp add: loadSettings_def loadSettings_call_def loadSettings_resume_def prog_defs
      split: sum.splits)

lemma handleSave_call_run:
  "handleSave_call upd w =
     (Inr (), \<lparr>comp = (comp w)\<lparr>saving := True\<rparr>,
               emitted = emitted w @ [UpdateSettingsRequest upd]\<rparr>)"
  by (simp add: handleSave_call_def prog_defs)

lemma handleSave_resume_ok:
  "handleSave_resume upd (Inr r) w =
     (Inr (), \<lparr>comp = (comp w)\<lparr>settings := Some r, saving := False\<rparr>,
               emitted = emitted w @ [Alert ''Settings saved successfully!''] @
                 (if ai upd \<noteq> Undefined then [SetTimeout WindowLocationReload 1000] else [])\<rparr>)"
  by (simp add: handleSave_resume_def prog_defs)

lemma handleSave_resume_fail:
  "handleSave_resume upd (Inl e) w =
     (Inr (), \<lparr>comp = (comp w)\<lparr>saving := False\<rparr>,
               emitted = emitted w @
                 [ConsoleError ''Failed to save settings:'' e, Alert ''Failed to save settings'']\<rparr>)"
  by (simp add: handleSave_resume_def prog_defs)

lemma handleSave_ok:
  "updateSettings api upd = Inr r \<Longrightarrow>
   handleSave api upd w =
     (Inr (), \<lparr>comp = (comp w)\<lparr>settings := Some r, saving := False\<rparr>,
               emitted = emitted w @ [UpdateSettingsRequest upd, Alert ''Settings saved successfully!''] @
                 (if ai upd \<noteq> Undefined then [SetTimeout WindowLocationReload 1000] else [])\<rparr>)"
  by (simp add: handleSave_def prog_defs)

lemma handleSave_fail:
  "updateSettings api upd = Inl e \<Longrightarrow>
   handleSave api upd w =
     (Inr (), \<lparr>comp = (comp w)\<lparr>saving := False\<rparr>,
               emitted = emitted w @ [UpdateSettingsRequest upd,
                 ConsoleError ''Failed to save settings:'' e, Alert ''Failed to save settings'']\<rparr>)"
  by (simp add: handleSave_def prog_defs)

lemma loadSettings_call_run:
  "loadSettings_call w = (Inr (), w\<lparr>emitted := emitted w @ [GetSettingsRequest]\<rparr>)"
  by (simp add: loadSettings_call_def prog_defs)

lemma loadSettings_resume_ok:
  "loadSettings_resume (Inr r) w =
     (Inr (), w\<lparr>comp := (comp w)\<lparr>settings := Some r, loading := False\<rparr>\<rparr>)"
  by (simp add: loadSettings_resume_def prog_defs)

lemma loadSettings_resume_fail:
  "loadSettings_resume (Inl e) w =
     (Inr (), \<lparr>comp = (comp w)\<lparr>loading := False\<rparr>,
               emitted = emitted w @ [ConsoleError ''Failed to load settings:'' e]\<rparr>)"
  by (simp add: loadSettings_resume_def prog_defs)

lemma loadSettings_fail:
  "getSettings api = Inl e \<Longrightarrow>
   loadSettings api w =
     (Inr (), \<lparr>comp = (comp w)\<lparr>loading := False\<rparr>,
               emitted = emitted w @
                 [GetSettingsRequest, ConsoleError ''Failed to load settings:'' e]\<rparr>)"
  by (simp add: loadSettings_def prog_defs)

lemma loadSettings_ok:
  "getSettings api = Inr r \<Longrightarrow>
   loadSettings api w =
     (Inr (), \<lparr>comp = (comp w)\<lparr>settings := Some r, loading := False\<rparr>,
               emitted = emitted w @ [GetSettingsRequest]\<rparr>)"
  by (simp add: loadSettings_def prog_defs)

section \<open>What is on screen, and what an event does\<close>

lemmas render_defs = render_def render_dialog_def content_area_def child_def map_result_def
  deref_def List.map_filter_simps

lemma render_guard: "loading p \<or> settings p = None \<Longrightarrow> render p = Inr Spinner"
  by (simp add: render_def)

lemma render_loaded:
  "\<not> loading p \<Longrightarrow> settings p = Some s \<Longrightarrow>
   \<exists>es. render p = Inr (Dialog OnCloseCall (sidebar (activeTab p)) es)"
  by (cases "activeTab p") (simp_all add: render_defs)

lemma editors_of_render:
  "\<not> loading p \<Longrightarrow> settings p = Some s \<Longrightarrow>
   editors_of (render p) =
     [case activeTab p of
        Sources \<Rightarrow> DataSourcesTab (credentials s)
          (\<lambda>x. HandleSaveCall (no_fields\<lparr>credentials := Obj x\<rparr>)) (saving p)
      | Generation \<Rightarrow> GenerationTab (generation s)
          (\<lambda>x. HandleSaveCall (no_fields\<lparr>generation := Obj x\<rparr>)) (saving p)
      | Export \<Rightarrow> ExportProfilesTab (export_profiles s)
          (\<lambda>x. HandleSaveCall (no_fields\<lparr>export_profiles := Obj x\<rparr>)) (saving p)
      | UI \<Rightarrow> UIPreferencesTab (ui s)
          (\<lambda>x. HandleSaveCall (no_fields\<lparr>ui := Obj x\<rparr>)) (saving p)
      | Cache \<Rightarrow> CacheStorageTab (cache s)
          (\<lambda>x. HandleSaveCall (no_fields\<lparr>cache := Obj x\<rparr>)) (saving p)
      | AI \<Rightarrow> AITab
          (js_or (ai s) (Obj \<lparr>enabled = False, ollama_url = ''http://localhost:11434'',
              vision_model = ''qwen3-vl:235b-cloud'', coder_model = ''qwen3-coder:480b-cloud'',
              auto_analyze = False, timeout_seconds = 120\<rparr>))
          (\<lambda>x. HandleSaveCall (no_fields\<lparr>ai := Obj x\<rparr>)) (saving p)]"
  by (cases "activeTab p") (simp_all add: render_defs)

lemma editors_of_guard: "loading p \<or> settings p = None \<Longrightarrow> editors_of (render p) = []"
  by (simp add: render_def)

lemma one_field:
  "top_level_fields (no_fields\<lparr>credentials := Obj c\<rparr>) = [Sources]"
  "top_level_fields (no_fields\<lparr>generation := Obj g\<rparr>) = [Generation]"
  "top_level_fields (no_fields\<lparr>export_profiles := Obj e\<rparr>) = [Export]"
  "top_level_fields (no_fields\<lparr>ui := Obj u\<rparr>) = [UI]"
  "top_level_fields (no_fields\<lparr>cache := Obj k\<rparr>) = [Cache]"
  "top_level_fields (no_fields\<lparr>ai := Obj a\<rparr>) = [AI]"
  by (simp_all add: top_level_fields_def no_fields_def)

lemma ai_of_one_field:
  "ai (no_fields\<lparr>credentials := Obj c\<rparr>) = Undefined"
  "ai (no_fields\<lparr>generation := Obj g\<rparr>) = Undefined"
  "ai (no_fields\<lparr>export_profiles := Obj e\<rparr>) = Undefined"
  "ai (no_fields\<lparr>ui := Obj u\<rparr>) = Undefined"
  "ai (no_fields\<lparr>cache := Obj k\<rparr>) = Undefined"
  "ai (no_fields\<lparr>ai := Obj a\<rparr>) = Obj a"
  by (simp_all add: no_fields_def)

lemma onSave_of_rendered:
  assumes "\<not> loading p" and "settings p = Some s" and "editors_of (render p) = [ed]"
  shows "tab_of ed = activeTab p"
    and "onSave_of ed x \<noteq> None \<longleftrightarrow> payload_tab x = activeTab p"
    and "onSave_of ed x = Some h \<Longrightarrow>
         \<exists>upd. h = HandleSaveCall upd \<and> top_level_fields upd = [activeTab p] \<and>
           (ai upd \<noteq> Undefined \<longrightarrow> (\<exists>a. x = FromAI a \<and> upd = no_fields\<lparr>ai := Obj a\<rparr>))"
proof -
  have ed: "[ed] = editors_of (render p)" using assms(3) by simp
  show "tab_of ed = activeTab p"
    using ed unfolding editors_of_render [OF assms(1,2)] by (cases "activeTab p") auto
  show "onSave_of ed x \<noteq> None \<longleftrightarrow> payload_tab x = activeTab p"
    using ed unfolding editors_of_render [OF assms(1,2)]
    by (cases "activeTab p"; cases x) auto
  show "\<exists>upd. h = HandleSaveCall upd \<and> top_level_fields upd = [activeTab p] \<and>
           (ai upd \<noteq> Undefined \<longrightarrow> (\<exists>a. x = FromAI a \<and> upd = no_fields\<lparr>ai := Obj a\<rparr>))"
    if "onSave_of ed x = Some h"
    using ed that unfolding editors_of_render [OF assms(1,2)]
    by (cases "activeTab p"; cases x) (auto simp: one_field ai_of_one_field)
qed


lemma find_sidebar:
  "find (\<lambda>b. key b = t) (sidebar a :: ('c, 'g, 'e, 'u, 'k) tab_button list) =
     Some \<lparr>key = t, glyph = (case t of Sources \<Rightarrow> Database | Generation \<Rightarrow> Sliders
        | Export \<Rightarrow> FileText | AI \<Rightarrow> Brain | UI \<Rightarrow> Palette | Cache \<Rightarrow> HardDrive),
       label = (case t of Sources \<Rightarrow> ''Data Sources'' | Generation \<Rightarrow> ''Generation''
        | Export \<Rightarrow> ''Export Profiles'' | AI \<Rightarrow> ''AI Assistant'' | UI \<Rightarrow> ''UI & Language''
        | Cache \<Rightarrow> ''Storage''),
       highlighted = (a = t), onClick = SetActiveTabCall t\<rparr>"
  by (cases t) (simp_all add: sidebar_def tabs_def)

lemma buttons_of_render:
  "buttons_of (render p) =
     (if loading p \<or> settings p = None then [] else sidebar (activeTab p))"
proof (cases "loading p \<or> settings p = None")
  case True
  then show ?thesis by (simp add: render_def)
next
  case False
  then obtain s where "\<not> loading p" and "settings p = Some s" by auto
  from render_loaded [OF this] False show ?thesis by auto
qed

lemma run_setActiveTab:
  "run_handler (setActiveTab t) w = w\<lparr>comp := (comp w)\<lparr>activeTab := t\<rparr>\<rparr>"
  by (simp add: run_handler_def setActiveTab_def)

lemma step_ClickTab:
  "step (ClickTab t) s =
     (if loading (comp (now s)) \<or> settings (comp (now s)) = None then s
      else s\<lparr>now := (now s)\<lparr>comp := (comp (now s))\<lparr>activeTab := t\<rparr>\<rparr>\<rparr>)"
  by (simp add: buttons_of_render find_sidebar run_setActiveTab)

lemma step_ClickClose_emitted:
  "UpdateSettingsRequest u \<in> set (emitted (now (step ClickClose s))) \<Longrightarrow>
   UpdateSettingsRequest u \<in> set (emitted (now s))"
proof (cases "loading (comp (now s)) \<or> settings (comp (now s)) = None")
  case True
  assume "UpdateSettingsRequest u \<in> set (emitted (now (step ClickClose s)))"
  with True show ?thesis by (simp add: render_def)
next
  case False
  assume req: "UpdateSettingsRequest u \<in> set (emitted (now (step ClickClose s)))"
  from False obtain st where "\<not> loading (comp (now s))" and "settings (comp (now s)) = Some st"
    by auto
  from render_loaded [OF this] obtain es
    where "render (comp (now s)) = Inr (Dialog OnCloseCall (sidebar (activeTab (comp (now s)))) es)"
    by blast
  with req show ?thesis by (simp add: run_handler_def emit_def)
qed

lemma resume_emitted:
  "UpdateSettingsRequest u \<in> set (emitted (run_handler (resume k r) w)) \<Longrightarrow>
   UpdateSettingsRequest u \<in> set (emitted w)"
  by (cases k; cases r)
    (auto simp: run_handler_def loadSettings_resume_ok loadSettings_resume_fail
      handleSave_resume_ok handleSave_resume_fail split: if_splits)

lemma step_requests:
  assumes "UpdateSettingsRequest u \<in> set (emitted (now (step ev s)))"
  shows "UpdateSettingsRequest u \<in> set (emitted (now s)) \<or>
    (\<exists>x ed. ev = EditorSave x \<and> \<not> loading (comp (now s)) \<and>
       editors_of (render (comp (now s))) = [ed] \<and> onSave_of ed x = Some (HandleSaveCall u))"
proof (cases ev)
  case Mount
  with assms show ?thesis by (simp add: run_handler_def loadSettings_call_run)
next
  case (Settle i r)
  with assms show ?thesis by (auto split: if_splits dest: resume_emitted)
next
  case (ClickTab t)
  from assms show ?thesis unfolding ClickTab step_ClickTab by (auto split: if_splits)
next
  case ClickClose
  from assms show ?thesis unfolding ClickClose by (blast dest: step_ClickClose_emitted)
next
  case (EditorSave x)
  show ?thesis
  proof (cases "loading (comp (now s)) \<or> settings (comp (now s)) = None")
    case True
    with assms EditorSave show ?thesis by (simp add: editors_of_guard List.map_filter_simps)
  next
    case False
    then obtain st where loaded: "\<not> loading (comp (now s))" "settings (comp (now s)) = Some st"
      by auto
    from editors_of_render [OF loaded] obtain ed
      where ed: "editors_of (render (comp (now s))) = [ed]" by blast
    show ?thesis
    proof (cases "onSave_of ed x")
      case None
      with assms EditorSave ed show ?thesis by (simp add: List.map_filter_simps)
    next
      case (Some h)
      from onSave_of_rendered(3) [OF loaded ed Some] obtain upd
        where h: "h = HandleSaveCall upd" by blast
      with assms EditorSave ed Some loaded show ?thesis
        by (auto simp: List.map_filter_simps run_handler_def handleSave_call_run)
    qed
  qed
qed

lemma run_events_requests:
  "UpdateSettingsRequest u \<in> set (emitted (now (run_events evs s))) \<Longrightarrow> ai u \<noteq> Undefined \<Longrightarrow>
   UpdateSettingsRequest u \<in> set (emitted (now s)) \<or>
   (\<exists>a. EditorSave (FromAI a) \<in> set evs \<and> u = no_fields\<lparr>ai := Obj a\<rparr>)"
proof (induction evs arbitrary: s)
  case Nil
  then show ?case by (simp add: run_events_def)
next
  case (Cons ev evs)
  from Cons.prems(1) have "UpdateSettingsRequest u \<in> set (emitted (now (run_events evs (step ev s))))"
    by (simp add: run_events_def)
  from Cons.IH [OF this Cons.prems(2)] show ?case
  proof
    assume "UpdateSettingsRequest u \<in> set (emitted (now (step ev s)))"
    from step_requests [OF this] show ?thesis
    proof
      assume "UpdateSettingsRequest u \<in> set (emitted (now s))"
      then show ?thesis by simp
    next
      assume "\<exists>x ed. ev = EditorSave x \<and> \<not> loading (comp (now s)) \<and>
        editors_of (render (comp (now s))) = [ed] \<and> onSave_of ed x = Some (HandleSaveCall u)"
      then obtain x ed where ev: "ev = EditorSave x" and l: "\<not> loading (comp (now s))"
        and ed: "editors_of (render (comp (now s))) = [ed]"
        and h: "onSave_of ed x = Some (HandleSaveCall u)" by blast
      from ed editors_of_guard [of "comp (now s)"] l obtain st
        where st: "settings (comp (now s)) = Some st" by (cases "settings (comp (now s))") auto
      from onSave_of_rendered(3) [OF l st ed h] Cons.prems(2)
      obtain a where "x = FromAI a" and "u = no_fields\<lparr>ai := Obj a\<rparr>" by auto
      with ev show ?thesis by auto
    qed
  next
    assume "\<exists>a. EditorSave (FromAI a) \<in> set evs \<and> u = no_fields\<lparr>ai := Obj a\<rparr>"
    then show ?thesis by auto
  qed
qed

lemma js_or_cases:
  "js_or Undefined d = d" "js_or Null d = d" "js_or (Obj a) d = Obj a"
  by (simp_all add: js_or_def)

section \<open>The claims\<close>

text \<open>
  C1. A reload of the page is scheduled exactly when the save succeeds and the update's
  \<^verbatim>\<open>ai\<close> property is not \<^verbatim>\<open>undefined\<close>: no earlier settings are compared, the only
  timer ever set is the reload with a delay of 1000 milliseconds, and neither a failed
  save nor a successful save of another field sets one. This holds for the handler run
  as a whole and for the part of it that runs after the service has answered.
\<close>

theorem reload_scheduled_iff:
  "(SetTimeout cb d \<in> set (effects_of (handleSave api upd) w) \<longleftrightarrow>
      (\<exists>r. updateSettings api upd = Inr r) \<and> ai upd \<noteq> Undefined \<and>
      cb = WindowLocationReload \<and> d = 1000) \<and>
   (SetTimeout cb d \<in> set (effects_of (handleSave_resume upd res) w) \<longleftrightarrow>
      (\<exists>r. res = Inr r) \<and> ai upd \<noteq> Undefined \<and> cb = WindowLocationReload \<and> d = 1000)"
proof
  show "SetTimeout cb d \<in> set (effects_of (handleSave api upd) w) \<longleftrightarrow>
      (\<exists>r. updateSettings api upd = Inr r) \<and> ai upd \<noteq> Undefined \<and>
      cb = WindowLocationReload \<and> d = 1000"
    by (cases "updateSettings api upd") (auto simp: effects_of_def handleSave_ok handleSave_fail)
  show "SetTimeout cb d \<in> set (effects_of (handleSave_resume upd res) w) \<longleftrightarrow>
      (\<exists>r. res = Inr r) \<and> ai upd \<noteq> Undefined \<and> cb = WindowLocationReload \<and> d = 1000"
    by (cases res) (auto simp: effects_of_def handleSave_resume_ok handleSave_resume_fail)
qed

text \<open>C1 at a service that answers, for an \<^verbatim>\<open>ai\<close> update and a \<^verbatim>\<open>cache\<close> update, and at one that fails.\<close>

theorem reload_scheduled_iff_witness:
  "SetTimeout WindowLocationReload 1000 \<in> set (effects_of
     (handleSave
        \<lparr>getSettings = Inl (ApiError ''down''),
         updateSettings = (\<lambda>upd. Inr \<lparr>credentials = (), generation = (), export_profiles = (),
            ui = (), cache = (), ai = ai upd\<rparr>)\<rparr>
        (no_fields\<lparr>ai := Null\<rparr>))
     \<lparr>comp = initial_page, emitted = []\<rparr>) \<and>
   SetTimeout WindowLocationReload 1000 \<notin> set (effects_of
     (handleSave
        \<lparr>getSettings = Inl (ApiError ''down''),
         updateSettings = (\<lambda>upd. Inr \<lparr>credentials = (), generation = (), export_profiles = (),
            ui = (), cache = (), ai = ai upd\<rparr>)\<rparr>
        (no_fields\<lparr>cache := Obj ()\<rparr>))
     \<lparr>comp = initial_page, emitted = []\<rparr>) \<and>
   SetTimeout WindowLocationReload 1000 \<notin> set (effects_of
     (handleSave
        \<lparr>getSettings = Inl (ApiError ''down''),
         updateSettings = (\<lambda>upd. Inl (ApiError ''down''))\<rparr>
        (no_fields\<lparr>ai := Null\<rparr>))
     (\<lparr>comp = initial_page, emitted = []\<rparr> :: (unit, unit, unit, unit, unit) world))"
  using reload_scheduled_iff [of WindowLocationReload 1000
      "\<lparr>getSettings = Inl (ApiError ''down''),
         updateSettings = (\<lambda>upd. Inr \<lparr>credentials = (), generation = (), export_profiles = (),
            ui = (), cache = (), ai = ai upd\<rparr>)\<rparr>"
      "no_fields\<lparr>ai := Null\<rparr>" "\<lparr>comp = initial_page, emitted = []\<rparr>"]
    reload_scheduled_iff [of WindowLocationReload 1000
      "\<lparr>getSettings = Inl (ApiError ''down''),
         updateSettings = (\<lambda>upd. Inr \<lparr>credentials = (), generation = (), export_profiles = (),
            ui = (), cache = (), ai = ai upd\<rparr>)\<rparr>"
      "no_fields\<lparr>cache := Obj ()\<rparr>" "\<lparr>comp = initial_page, emitted = []\<rparr>"]
    reload_scheduled_iff [of WindowLocationReload 1000
      "\<lparr>getSettings = Inl (ApiError ''down''),
         updateSettings = (\<lambda>upd. Inl (ApiError ''down''))\<rparr>"
      "no_fields\<lparr>ai := Null\<rparr>"
      "\<lparr>comp = initial_page, emitted = []\<rparr> :: (unit, unit, unit, unit, unit) world"]
  by (simp add: no_fields_def)

text \<open>
  C2. When the persistence call throws while the store holds the loaded settings \<open>S\<close>,
  the handler ends normally (nothing leaves it uncaught), the store still holds exactly
  \<open>S\<close>, the saving flag is cleared and nothing else of the state changes, and what the
  handler emits after the request is the logged error followed by the failure alert.
  The same holds for the part of the handler that runs once the promise has been
  rejected, from whatever state the component is in by then.
\<close>

theorem save_failure_keeps_settings:
  assumes "updateSettings api upd = Inl e"
  shows "fst (handleSave api upd w) = Inr () \<and>
    (settings (comp w) = Some S \<longrightarrow> settings (comp (snd (handleSave api upd w))) = Some S) \<and>
    comp (snd (handleSave api upd w)) = (comp w)\<lparr>saving := False\<rparr> \<and>
    effects_of (handleSave api upd) w =
      [UpdateSettingsRequest upd, ConsoleError ''Failed to save settings:'' e,
       Alert ''Failed to save settings''] \<and>
    fst (handleSave_resume upd (Inl e) w) = Inr () \<and>
    comp (snd (handleSave_resume upd (Inl e) w)) = (comp w)\<lparr>saving := False\<rparr> \<and>
    effects_of (handleSave_resume upd (Inl e)) w =
      [ConsoleError ''Failed to save settings:'' e, Alert ''Failed to save settings'']"
  using assms
  by (simp add: handleSave_fail handleSave_resume_fail effects_of_def)

theorem save_failure_keeps_settings_witness:
  "settings (comp (snd (handleSave
      \<lparr>getSettings = Inl (ApiError ''down''),
       updateSettings = (\<lambda>upd. Inl (ApiError ''503''))\<rparr>
      (no_fields\<lparr>ui := Obj (2::nat)\<rparr>)
      \<lparr>comp = \<lparr>activeTab = UI,
         settings = Some \<lparr>credentials = (), generation = (), export_profiles = (), ui = 1,
           cache = (), ai = Undefined\<rparr>,
         loading = False, saving = False\<rparr>,
       emitted = [GetSettingsRequest]\<rparr>)))
   = Some \<lparr>credentials = (), generation = (), export_profiles = (), ui = 1::nat,
        cache = (), ai = Undefined\<rparr> \<and>
   effects_of (handleSave
      \<lparr>getSettings = Inl (ApiError ''down''),
       updateSettings = (\<lambda>upd. Inl (ApiError ''503''))\<rparr>
      (no_fields\<lparr>ui := Obj (2::nat)\<rparr>))
      \<lparr>comp = \<lparr>activeTab = UI,
         settings = Some \<lparr>credentials = (), generation = (), export_profiles = (), ui = 1,
           cache = (), ai = Undefined\<rparr>,
         loading = False, saving = False\<rparr>,
       emitted = [GetSettingsRequest]\<rparr>
   = [UpdateSettingsRequest (no_fields\<lparr>ui := Obj (2::nat)\<rparr>),
      ConsoleError ''Failed to save settings:'' (ApiError ''503''),
      Alert ''Failed to save settings'']"
  using save_failure_keeps_settings [of
      "\<lparr>getSettings = Inl (ApiError ''down''),
       updateSettings = (\<lambda>upd. Inl (ApiError ''503''))\<rparr>"
      "no_fields\<lparr>ui := Obj (2::nat)\<rparr>" "ApiError ''503''"
      "\<lparr>comp = \<lparr>activeTab = UI,
         settings = Some \<lparr>credentials = (), generation = (), export_profiles = (), ui = 1,
           cache = (), ai = Undefined\<rparr>,
         loading = False, saving = False\<rparr>,
       emitted = [GetSettingsRequest]\<rparr>"
      "\<lparr>credentials = (), generation = (), export_profiles = (), ui = 1::nat,
        cache = (), ai = Undefined\<rparr>"]
  by simp

text \<open>
  C3. The call of \<open>handleSave\<close> sets the saving flag and sends the update it was given,
  unchanged, to the service; the rest of the handler runs when the service has answered.
  On success the stored settings are the response itself, whatever the update and the
  earlier settings were: no field of the update is written into the store.
\<close>

theorem save_replaces_settings:
  "saving (comp (snd (handleSave_call upd w))) \<and>
   effects_of (handleSave_call upd) w = [UpdateSettingsRequest upd] \<and>
   seq (handleSave_call upd) (handleSave_resume upd (updateSettings api upd)) = handleSave api upd \<and>
   settings (comp (snd (handleSave_resume upd (Inr r) w))) = Some r \<and>
   (updateSettings api upd = Inr r \<longrightarrow>
      fst (handleSave api upd w) = Inr () \<and>
      comp (snd (handleSave api upd w)) = (comp w)\<lparr>settings := Some r, saving := False\<rparr> \<and>
      [x \<leftarrow> effects_of (handleSave api upd) w. \<exists>u'. x = UpdateSettingsRequest u'] =
        [UpdateSettingsRequest upd])"
proof (intro conjI impI)
  show "seq (handleSave_call upd) (handleSave_resume upd (updateSettings api upd)) =
      handleSave api upd"
    by (simp add: handleSave_phases)
qed (simp_all add: handleSave_call_run handleSave_resume_ok handleSave_ok effects_of_def)

text \<open>C3 at a service that ignores an \<^verbatim>\<open>export_profiles\<close> update: the store follows the service.\<close>

theorem save_replaces_settings_witness:
  "settings (comp (snd (handleSave
      \<lparr>getSettings = Inl (ApiError ''down''),
       updateSettings = (\<lambda>upd. Inr \<lparr>credentials = (), generation = (),
          export_profiles = [''server''], ui = (), cache = (), ai = Null\<rparr>)\<rparr>
      (no_fields\<lparr>export_profiles := Obj [''client'']\<rparr>)
      \<lparr>comp = \<lparr>activeTab = Export,
         settings = Some \<lparr>credentials = (), generation = (), export_profiles = [], ui = (),
           cache = (), ai = Undefined\<rparr>,
         loading = False, saving = False\<rparr>,
       emitted = []\<rparr>)))
   = Some \<lparr>credentials = (), generation = (), export_profiles = [''server''], ui = (),
        cache = (), ai = Null\<rparr>"
  using save_replaces_settings [of "no_fields\<lparr>export_profiles := Obj [''client'']\<rparr>"
      "\<lparr>comp = \<lparr>activeTab = Export,
         settings = Some \<lparr>credentials = (), generation = (), export_profiles = [], ui = (),
           cache = (), ai = Undefined\<rparr>,
         loading = False, saving = False\<rparr>,
       emitted = []\<rparr>"
      "\<lparr>getSettings = Inl (ApiError ''down''),
       updateSettings = (\<lambda>upd. Inr \<lparr>credentials = (), generation = (),
          export_profiles = [''server''], ui = (), cache = (), ai = Null\<rparr>)\<rparr>"
      "\<lparr>credentials = (), generation = (), export_profiles = [''server''], ui = (),
        cache = (), ai = Null\<rparr>"]
  by simp

text \<open>
  C4. When the fetch fails while no settings are stored, \<open>loadSettings\<close> ends normally,
  logs the error, clears the loading flag and changes nothing else, so the settings are
  still \<^verbatim>\<open>null\<close> and the component renders the spinner. So does the mounted component
  when its first request is rejected: nothing is reported uncaught and nothing is left
  pending.
\<close>

theorem load_failure_contained:
  assumes "getSettings api = Inl e" and "settings (comp w) = None"
  shows "fst (loadSettings api w) = Inr () \<and>
    effects_of (loadSettings api) w =
      [GetSettingsRequest, ConsoleError ''Failed to load settings:'' e] \<and>
    comp (snd (loadSettings api w)) = (comp w)\<lparr>loading := False\<rparr> \<and>
    loading (comp (snd (loadSettings api w))) = False \<and>
    settings (comp (snd (loadSettings api w))) = None \<and>
    render (comp (snd (loadSettings api w))) = Inr Spinner \<and>
    run_events [Mount, Settle 0 (Inl e)] initial_system =
      \<lparr>now = \<lparr>comp = initial_page\<lparr>loading := False\<rparr>,
               emitted = [GetSettingsRequest, ConsoleError ''Failed to load settings:'' e]\<rparr>,
       pending = []\<rparr> \<and>
    render (comp (now (run_events [Mount, Settle 0 (Inl e)] initial_system))) = Inr Spinner"
  using assms
  by (simp add: loadSettings_fail effects_of_def render_def run_events_def initial_system_def
      run_handler_def loadSettings_call_run loadSettings_resume_fail initial_page_def)

theorem load_failure_contained_witness:
  "render (comp (snd (loadSettings
      \<lparr>getSettings = Inl (ApiError ''timeout''),
       updateSettings = (\<lambda>upd. Inl (ApiError ''timeout''))\<rparr>
      (\<lparr>comp = initial_page, emitted = []\<rparr> :: (unit, unit, unit, unit, unit) world))))
   = Inr Spinner \<and>
   effects_of (loadSettings
      \<lparr>getSettings = Inl (ApiError ''timeout''),
       updateSettings = (\<lambda>upd. Inl (ApiError ''timeout''))\<rparr>)
      (\<lparr>comp = initial_page, emitted = []\<rparr> :: (unit, unit, unit, unit, unit) world)
   = [GetSettingsRequest, ConsoleError ''Failed to load settings:'' (ApiError ''timeout'')]"
proof -
  have fails: "getSettings
      (\<lparr>getSettings = Inl (ApiError ''timeout''),
       updateSettings = (\<lambda>upd. Inl (ApiError ''timeout''))\<rparr>
        :: (unit, unit, unit, unit, unit) settingsApi) = Inl (ApiError ''timeout'')"
    by simp
  have unset: "settings (comp
      (\<lparr>comp = initial_page, emitted = []\<rparr> :: (unit, unit, unit, unit, unit) world)) = None"
    by (simp add: initial_page_def)
  from load_failure_contained [OF fails unset] show ?thesis
    by blast
qed

text \<open>
  C5. Once the settings are loaded, whichever of the six tabs is active, exactly one
  editor is on screen and it is the one of the active tab; it takes the values of its
  own slice and no others; and whatever value it passes to its \<^verbatim>\<open>onSave\<close>, the call is
  \<open>handleSave\<close> on an update with exactly one top-level field, the one of that tab.
\<close>

theorem tab_save_sends_one_field:
  assumes "\<not> loading p" and "settings p = Some s"
  shows "\<exists>ed. editors_of (render p) = [ed] \<and> tab_of ed = activeTab p \<and>
    (\<forall>x. onSave_of ed x \<noteq> None \<longleftrightarrow> payload_tab x = activeTab p) \<and>
    (\<forall>x h. onSave_of ed x = Some h \<longrightarrow>
       (\<exists>upd. h = HandleSaveCall upd \<and> top_level_fields upd = [activeTab p]))"
proof -
  from editors_of_render [OF assms] obtain ed where ed: "editors_of (render p) = [ed]"
    by blast
  have "tab_of ed = activeTab p"
    by (rule onSave_of_rendered(1) [OF assms ed])
  moreover have "\<forall>x. onSave_of ed x \<noteq> None \<longleftrightarrow> payload_tab x = activeTab p"
    using onSave_of_rendered(2) [OF assms ed] by blast
  moreover have "\<forall>x h. onSave_of ed x = Some h \<longrightarrow>
       (\<exists>upd. h = HandleSaveCall upd \<and> top_level_fields upd = [activeTab p])"
    using onSave_of_rendered(3) [OF assms ed] by blast
  ultimately show ?thesis using ed by blast
qed

text \<open>C5 on the storage tab, whose editor submits the value 7.\<close>

theorem tab_save_sends_one_field_witness:
  "\<exists>ed upd. editors_of (render
       \<lparr>activeTab = Cache,
        settings = Some \<lparr>credentials = (), generation = (), export_profiles = (), ui = (),
          cache = 3::nat, ai = Undefined\<rparr>,
        loading = False, saving = False\<rparr>) = [ed] \<and>
     onSave_of ed (FromCacheStorage 7) = Some (HandleSaveCall upd) \<and>
     top_level_fields upd = [Cache]"
proof -
  have loaded: "\<not> loading \<lparr>activeTab = Cache,
        settings = Some \<lparr>credentials = (), generation = (), export_profiles = (), ui = (),
          cache = 3::nat, ai = Undefined\<rparr>,
        loading = False, saving = False\<rparr>"
    by simp
  have stored: "settings \<lparr>activeTab = Cache,
        settings = Some \<lparr>credentials = (), generation = (), export_profiles = (), ui = (),
          cache = 3::nat, ai = Undefined\<rparr>,
        loading = False, saving = False\<rparr>
      = Some \<lparr>credentials = (), generation = (), export_profiles = (), ui = (),
          cache = 3::nat, ai = Undefined\<rparr>"
    by simp
  from tab_save_sends_one_field [OF loaded stored] obtain ed where
    ed: "editors_of (render
       \<lparr>activeTab = Cache,
        settings = Some \<lparr>credentials = (), generation = (), export_profiles = (), ui = (),
          cache = 3::nat, ai = Undefined\<rparr>,
        loading = False, saving = False\<rparr>) = [ed]"
    and some: "\<forall>x. onSave_of ed x \<noteq> None \<longleftrightarrow> payload_tab x = Cache"
    and one: "\<forall>x h. onSave_of ed x = Some h \<longrightarrow>
       (\<exists>upd. h = HandleSaveCall upd \<and> top_level_fields upd = [Cache])"
    by auto
  from some have "onSave_of ed (FromCacheStorage 7) \<noteq> None" by simp
  then obtain h where "onSave_of ed (FromCacheStorage 7) = Some h" by blast
  with one ed show ?thesis by blast
qed

text \<open>
  C6. When the loaded settings have no \<^verbatim>\<open>ai\<close> field, the editor of the AI tab is given
  exactly the object with \<^verbatim>\<open>enabled\<close> false, the local service URL, the two named
  models, \<^verbatim>\<open>auto_analyze\<close> false and a timeout of 120 seconds. Whatever happens to the
  mounted component, a request that carries an \<^verbatim>\<open>ai\<close> field carries that field only,
  with a value the AI editor has passed to its \<^verbatim>\<open>onSave\<close>: rendering the default never
  sends it.
\<close>

theorem ai_default_only_rendered:
  "(\<not> loading p \<and> settings p = Some s \<and> activeTab p = AI \<and> ai s = Undefined \<longrightarrow>
      (\<exists>f. editors_of (render p) =
         [AITab (Obj \<lparr>enabled = False, ollama_url = ''http://localhost:11434'',
            vision_model = ''qwen3-vl:235b-cloud'', coder_model = ''qwen3-coder:480b-cloud'',
            auto_analyze = False, timeout_seconds = 120\<rparr>) f (saving p)])) \<and>
   (UpdateSettingsRequest upd \<in> set (emitted (now (run_events evs initial_system))) \<and>
    ai upd \<noteq> Undefined \<longrightarrow>
      (\<exists>a. EditorSave (FromAI a) \<in> set evs \<and> upd = no_fields\<lparr>ai := Obj a\<rparr>))"
proof (intro conjI impI)
  assume "\<not> loading p \<and> settings p = Some s \<and> activeTab p = AI \<and> ai s = Undefined"
  then show "\<exists>f. editors_of (render p) =
         [AITab (Obj \<lparr>enabled = False, ollama_url = ''http://localhost:11434'',
            vision_model = ''qwen3-vl:235b-cloud'', coder_model = ''qwen3-coder:480b-cloud'',
            auto_analyze = False, timeout_seconds = 120\<rparr>) f (saving p)]"
    by (simp add: editors_of_render js_or_cases)
next
  assume "UpdateSettingsRequest upd \<in> set (emitted (now (run_events evs initial_system))) \<and>
    ai upd \<noteq> Undefined"
  then have "UpdateSettingsRequest upd \<in> set (emitted (now (run_events evs initial_system)))"
    and "ai upd \<noteq> Undefined" by simp_all
  from run_events_requests [OF this]
  show "\<exists>a. EditorSave (FromAI a) \<in> set evs \<and> upd = no_fields\<lparr>ai := Obj a\<rparr>"
    by (simp add: initial_system_def)
qed

text \<open>
  C6 on the settings \<^verbatim>\<open>{credentials, generation, export_profiles, ui, cache}\<close> without
  \<^verbatim>\<open>ai\<close>: the AI tab shows the default, and mounting, loading and opening the AI tab
  send no request with it.
\<close>

theorem ai_default_only_rendered_witness:
  "(\<exists>f. editors_of (render
       \<lparr>activeTab = AI,
        settings = Some \<lparr>credentials = (), generation = (), export_profiles = (), ui = (),
          cache = (), ai = Undefined\<rparr>,
        loading = False, saving = False\<rparr>) =
      [AITab (Obj \<lparr>enabled = False, ollama_url = ''http://localhost:11434'',
         vision_model = ''qwen3-vl:235b-cloud'', coder_model = ''qwen3-coder:480b-cloud'',
         auto_analyze = False, timeout_seconds = 120\<rparr>) f False]) \<and>
   UpdateSettingsRequest (no_fields\<lparr>ai := Obj \<lparr>enabled = False,
       ollama_url = ''http://localhost:11434'', vision_model = ''qwen3-vl:235b-cloud'',
       coder_model = ''qwen3-coder:480b-cloud'', auto_analyze = False, timeout_seconds = 120\<rparr>\<rparr>)
     \<notin> set (emitted (now (run_events
         [Mount,
          Settle 0 (Inr \<lparr>credentials = (), generation = (), export_profiles = (), ui = (),
            cache = (), ai = Undefined\<rparr>),
          ClickTab AI]
         initial_system)))"
proof
  show "\<exists>f. editors_of (render
       \<lparr>activeTab = AI,
        settings = Some \<lparr>credentials = (), generation = (), export_profiles = (), ui = (),
          cache = (), ai = Undefined\<rparr>,
        loading = False, saving = False\<rparr>) =
      [AITab (Obj \<lparr>enabled = False, ollama_url = ''http://localhost:11434'',
         vision_model = ''qwen3-vl:235b-cloud'', coder_model = ''qwen3-coder:480b-cloud'',
         auto_analyze = False, timeout_seconds = 120\<rparr>) f False]"
    using ai_default_only_rendered [of
       "\<lparr>activeTab = AI,
        settings = Some \<lparr>credentials = (), generation = (), export_profiles = (), ui = (),
          cache = (), ai = Undefined\<rparr>,
        loading = False, saving = False\<rparr>"
       "\<lparr>credentials = (), generation = (), export_profiles = (), ui = (),
          cache = (), ai = Undefined\<rparr>", THEN conjunct1]
    by simp
  show "UpdateSettingsRequest (no_fields\<lparr>ai := Obj \<lparr>enabled = False,
       ollama_url = ''http://localhost:11434'', vision_model = ''qwen3-vl:235b-cloud'',
       coder_model = ''qwen3-coder:480b-cloud'', auto_analyze = False, timeout_seconds = 120\<rparr>\<rparr>)
     \<notin> set (emitted (now (run_events
         [Mount,
          Settle 0 (Inr \<lparr>credentials = (), generation = (), export_profiles = (), ui = (),
            cache = (), ai = Undefined\<rparr>),
          ClickTab AI]
         (initial_system :: (unit, unit, unit, unit, unit) system))))"
    using ai_default_only_rendered [of _ _
       "no_fields\<lparr>ai := Obj \<lparr>enabled = False,
         ollama_url = ''http://localhost:11434'', vision_model = ''qwen3-vl:235b-cloud'',
         coder_model = ''qwen3-coder:480b-cloud'', auto_analyze = False, timeout_seconds = 120\<rparr>\<rparr>"
       "[Mount,
          Settle 0 (Inr \<lparr>credentials = (), generation = (), export_profiles = (), ui = (),
            cache = (), ai = Undefined\<rparr>),
          ClickTab AI]", THEN conjunct2]
    by (auto simp: no_fields_def)
qed

text \<open>
  C7. The component starts on the \<^verbatim>\<open>sources\<close> tab. Selecting a tab always ends normally,
  changes nothing but the active tab, emits no effect and so sends no request, and
  selecting the tab that is already active leaves the state as it is. A click on a tab
  button of the sidebar does just that to the running component, and leaves what is
  pending alone.
\<close>

theorem select_tab_pure:
  "activeTab initial_page = Sources \<and>
   fst (setActiveTab t w) = Inr () \<and>
   snd (setActiveTab t w) = w\<lparr>comp := (comp w)\<lparr>activeTab := t\<rparr>\<rparr> \<and>
   effects_of (setActiveTab t) w = [] \<and>
   (activeTab (comp w) = t \<longrightarrow> snd (setActiveTab t w) = w) \<and>
   snd (setActiveTab t (snd (setActiveTab t w))) = snd (setActiveTab t w) \<and>
   emitted (now (step (ClickTab t) s)) = emitted (now s) \<and>
   pending (step (ClickTab t) s) = pending s \<and>
   (activeTab (comp (now s)) = t \<longrightarrow> step (ClickTab t) s = s) \<and>
   step (ClickTab t) (step (ClickTab t) s) = step (ClickTab t) s"
  by (simp add: initial_page_def setActiveTab_def effects_of_def step_ClickTab del: step.simps)

theorem select_tab_pure_witness:
  "step (ClickTab UI)
     \<lparr>now = \<lparr>comp = \<lparr>activeTab = UI,
         settings = Some \<lparr>credentials = (), generation = (), export_profiles = (), ui = (),
           cache = (), ai = Undefined\<rparr>,
         loading = False, saving = False\<rparr>, emitted = [GetSettingsRequest]\<rparr>,
      pending = []\<rparr>
   = \<lparr>now = \<lparr>comp = \<lparr>activeTab = UI,
         settings = Some \<lparr>credentials = (), generation = (), export_profiles = (), ui = (),
           cache = (), ai = Undefined\<rparr>,
         loading = False, saving = False\<rparr>, emitted = [GetSettingsRequest]\<rparr>,
      pending = []\<rparr>"
proof -
  have "activeTab (comp (now
     \<lparr>now = \<lparr>comp = \<lparr>activeTab = UI,
         settings = Some \<lparr>credentials = (), generation = (), export_profiles = (), ui = (),
           cache = (), ai = Undefined\<rparr>,
         loading = False, saving = False\<rparr>, emitted = [GetSettingsRequest]\<rparr>,
      pending = []\<rparr>)) = UI"
    by simp
  with select_tab_pure [of UI _
     "\<lparr>now = \<lparr>comp = \<lparr>activeTab = UI,
         settings = Some \<lparr>credentials = (), generation = (), export_profiles = (), ui = (),
           cache = (), ai = Undefined\<rparr>,
         loading = False, saving = False\<rparr>, emitted = [GetSettingsRequest]\<rparr>,
      pending = []\<rparr>"]
  show ?thesis by blast
qed

text \<open>
  C8, as the specification states it, fails: while the first load is in flight the
  component renders the spinner only, no tab button is on screen, and a click on the
  \<^verbatim>\<open>generation\<close> tab cannot happen and changes nothing.
\<close>

theorem tab_switch_during_load_counterexample:
  "LoadSettingsCont \<in> set (pending (step Mount
       (initial_system :: (unit, unit, unit, unit, unit) system))) \<and>
   render (comp (now (step Mount
       (initial_system :: (unit, unit, unit, unit, unit) system)))) = Inr Spinner \<and>
   buttons_of (render (comp (now (step Mount
       (initial_system :: (unit, unit, unit, unit, unit) system))))) = [] \<and>
   activeTab (comp (now (step (ClickTab Generation) (step Mount
       (initial_system :: (unit, unit, unit, unit, unit) system))))) \<noteq> Generation"
  by (simp add: initial_system_def initial_page_def run_handler_def loadSettings_call_run
      render_def)

text \<open>
  C8, amended. Once the settings are loaded, and so also while a save is in flight, the
  sidebar shows the six tab buttons, each wired to select its own tab, and a click on
  the button of tab \<open>t\<close> makes \<open>t\<close> the active tab and changes nothing else. While
  \<^verbatim>\<open>loading\<close> is true or the settings are \<^verbatim>\<open>null\<close>, and so during the load, the spinner
  is all there is: no tab button is rendered and a tab click changes nothing.
\<close>

theorem tab_switch_when_loaded:
  "(\<not> loading (comp (now s)) \<and> settings (comp (now s)) \<noteq> None \<longrightarrow>
      map key (buttons_of (render (comp (now s)))) = [Sources, Generation, Export, AI, UI, Cache] \<and>
      map onClick (buttons_of (render (comp (now s)))) =
        map SetActiveTabCall [Sources, Generation, Export, AI, UI, Cache] \<and>
      step (ClickTab t) s = s\<lparr>now := (now s)\<lparr>comp := (comp (now s))\<lparr>activeTab := t\<rparr>\<rparr>\<rparr>) \<and>
   (loading (comp (now s)) \<or> settings (comp (now s)) = None \<longrightarrow>
      render (comp (now s)) = Inr Spinner \<and>
      buttons_of (render (comp (now s))) = [] \<and>
      step (ClickTab t) s = s)"
  by (auto simp: buttons_of_render step_ClickTab sidebar_def tabs_def render_guard
      simp del: step.simps)

text \<open>C8, amended, while a save of the \<^verbatim>\<open>ui\<close> slice is in flight.\<close>

theorem tab_switch_when_loaded_witness:
  "activeTab (comp (now (step (ClickTab Cache)
     \<lparr>now = \<lparr>comp = \<lparr>activeTab = UI,
         settings = Some \<lparr>credentials = (), generation = (), export_profiles = (), ui = (),
           cache = (), ai = Undefined\<rparr>,
         loading = False, saving = True\<rparr>,
        emitted = [GetSettingsRequest, UpdateSettingsRequest (no_fields\<lparr>ui := Obj ()\<rparr>)]\<rparr>,
      pending = [HandleSaveCont (no_fields\<lparr>ui := Obj ()\<rparr>)]\<rparr>))) = Cache"
  using tab_switch_when_loaded [of
     "\<lparr>now = \<lparr>comp = \<lparr>activeTab = UI,
         settings = Some \<lparr>credentials = (), generation = (), export_profiles = (), ui = (),
           cache = (), ai = Undefined\<rparr>,
         loading = False, saving = True\<rparr>,
        emitted = [GetSettingsRequest, UpdateSettingsRequest (no_fields\<lparr>ui := Obj ()\<rparr>)]\<rparr>,
      pending = [HandleSaveCont (no_fields\<lparr>ui := Obj ()\<rparr>)]\<rparr>" Cache]
  by (simp del: step.simps)

text \<open>
  C9. Rendering never throws: while \<^verbatim>\<open>loading\<close> is true or the settings are
  \<^verbatim>\<open>null\<close> the component renders the spinner and nothing else, so an editor is on screen,
  and a slice of the settings is read, only when the settings are there. The guard is
  what keeps it so: the dialog rendered on \<^verbatim>\<open>null\<close> settings would throw at the slice
  of the active tab.
\<close>

theorem render_never_reads_null:
  "render p \<noteq> Inl err \<and>
   (loading p \<or> settings p = None \<longrightarrow>
      render p = Inr Spinner \<and> editors_of (render p) = [] \<and> buttons_of (render p) = []) \<and>
   (editors_of (render p) \<noteq> [] \<longrightarrow> \<not> loading p \<and> settings p \<noteq> None) \<and>
   (settings p = None \<longrightarrow> render_dialog p = Inl TypeError)"
proof (intro conjI impI)
  show "render p \<noteq> Inl err"
  proof (cases "loading p \<or> settings p = None")
    case True
    then show ?thesis by (simp add: render_def)
  next
    case False
    then obtain s where "\<not> loading p" and "settings p = Some s" by auto
    from render_loaded [OF this] show ?thesis by auto
  qed
  show "settings p = None \<Longrightarrow> render_dialog p = Inl TypeError"
    by (cases "activeTab p") (simp_all add: render_defs)
  show "editors_of (render p) \<noteq> [] \<Longrightarrow> \<not> loading p"
    using editors_of_guard [of p] by blast
  show "editors_of (render p) \<noteq> [] \<Longrightarrow> settings p \<noteq> None"
    using editors_of_guard [of p] by blast
qed (simp_all add: render_def)

theorem render_never_reads_null_witness:
  "render (initial_page :: (unit, unit, unit, unit, unit) page) = Inr Spinner \<and>
   render_dialog (initial_page :: (unit, unit, unit, unit, unit) page) = Inl TypeError"
proof -
  have "settings (initial_page :: (unit, unit, unit, unit, unit) page) = None"
    by (simp add: initial_page_def)
  with render_never_reads_null [of "initial_page :: (unit, unit, unit, unit, unit) page"]
  show ?thesis by blast
qed

text \<open>
  C10. The fallback of the AI tab goes by truthiness: for loaded settings whose \<^verbatim>\<open>ai\<close>
  is absent, \<^verbatim>\<open>undefined\<close> or \<^verbatim>\<open>null\<close> the editor is given the default object, and
  for settings whose \<^verbatim>\<open>ai\<close> is an object the editor is given that object, also when it
  equals the default.
\<close>

theorem ai_fallback_by_truthiness:
  assumes "\<not> loading p" and "settings p = Some s" and "activeTab p = AI"
  shows "(ai s = Undefined \<or> ai s = Null \<longrightarrow>
      (\<exists>f. editors_of (render p) =
         [AITab (Obj \<lparr>enabled = False, ollama_url = ''http://localhost:11434'',
            vision_model = ''qwen3-vl:235b-cloud'', coder_model = ''qwen3-coder:480b-cloud'',
            auto_analyze = False, timeout_seconds = 120\<rparr>) f (saving p)])) \<and>
    (\<forall>a. ai s = Obj a \<longrightarrow> (\<exists>f. editors_of (render p) = [AITab (Obj a) f (saving p)])) \<and>
    (truthy (ai s) \<longleftrightarrow> (\<exists>a. ai s = Obj a))"
  using assms by (cases "ai s") (auto simp: editors_of_render js_or_cases)

text \<open>C10 on settings whose \<^verbatim>\<open>ai\<close> is \<^verbatim>\<open>null\<close>, and on settings with an AI object.\<close>

theorem ai_fallback_by_truthiness_witness:
  "(\<exists>f. editors_of (render
       \<lparr>activeTab = AI,
        settings = Some \<lparr>credentials = (), generation = (), export_profiles = (), ui = (),
          cache = (), ai = Null\<rparr>,
        loading = False, saving = True\<rparr>) =
      [AITab (Obj \<lparr>enabled = False, ollama_url = ''http://localhost:11434'',
         vision_model = ''qwen3-vl:235b-cloud'', coder_model = ''qwen3-coder:480b-cloud'',
         auto_analyze = False, timeout_seconds = 120\<rparr>) f True]) \<and>
   (\<exists>f. editors_of (render
       \<lparr>activeTab = AI,
        settings = Some \<lparr>credentials = (), generation = (), export_profiles = (), ui = (),
          cache = (), ai = Obj \<lparr>enabled = True, ollama_url = ''http://10.0.0.2:11434'',
            vision_model = ''v'', coder_model = ''c'', auto_analyze = True,
            timeout_seconds = 30\<rparr>\<rparr>,
        loading = False, saving = False\<rparr>) =
      [AITab (Obj \<lparr>enabled = True, ollama_url = ''http://10.0.0.2:11434'',
            vision_model = ''v'', coder_model = ''c'', auto_analyze = True,
            timeout_seconds = 30\<rparr>) f False])"
proof
  show "\<exists>f. editors_of (render
       \<lparr>activeTab = AI,
        settings = Some \<lparr>credentials = (), generation = (), export_profiles = (), ui = (),
          cache = (), ai = Null\<rparr>,
        loading = False, saving = True\<rparr>) =
      [AITab (Obj \<lparr>enabled = False, ollama_url = ''http://localhost:11434'',
         vision_model = ''qwen3-vl:235b-cloud'', coder_model = ''qwen3-coder:480b-cloud'',
         auto_analyze = False, timeout_seconds = 120\<rparr>) f True]"
    using ai_fallback_by_truthiness [of
       "\<lparr>activeTab = AI,
        settings = Some \<lparr>credentials = (), generation = (), export_profiles = (), ui = (),
          cache = (), ai = Null\<rparr>,
        loading = False, saving = True\<rparr>"
       "\<lparr>credentials = (), generation = (), export_profiles = (), ui = (),
          cache = (), ai = Null\<rparr>"]
    by simp
  show "\<exists>f. editors_of (render
       \<lparr>activeTab = AI,
        settings = Some \<lparr>credentials = (), generation = (), export_profiles = (), ui = (),
          cache = (), ai = Obj \<lparr>enabled = True, ollama_url = ''http://10.0.0.2:11434'',
            vision_model = ''v'', coder_model = ''c'', auto_analyze = True,
            timeout_seconds = 30\<rparr>\<rparr>,
        loading = False, saving = False\<rparr>) =
      [AITab (Obj \<lparr>enabled = True, ollama_url = ''http://10.0.0.2:11434'',
            vision_model = ''v'', coder_model = ''c'', auto_analyze = True,
            timeout_seconds = 30\<rparr>) f False]"
    using ai_fallback_by_truthiness [of
       "\<lparr>activeTab = AI,
        settings = Some \<lparr>credentials = (), generation = (), export_profiles = (), ui = (),
          cache = (), ai = Obj \<lparr>enabled = True, ollama_url = ''http://10.0.0.2:11434'',
            vision_model = ''v'', coder_model = ''c'', auto_analyze = True,
            timeout_seconds = 30\<rparr>\<rparr>,
        loading = False, saving = False\<rparr>"
       "\<lparr>credentials = (), generation = (), export_profiles = (), ui = (),
          cache = (), ai = Obj \<lparr>enabled = True, ollama_url = ''http://10.0.0.2:11434'',
            vision_model = ''v'', coder_model = ''c'', auto_analyze = True,
            timeout_seconds = 30\<rparr>\<rparr>"]
    by simp
qed

end
